theory Spec2Isabelle
  imports Main
begin

section \<open>Syntax trees\<close>

text \<open>
  The program under study (\<^verbatim>\<open>app.py\<close>) parses a source string with Python's \<^verbatim>\<open>ast.parse\<close>,
  vets the tree with \<^verbatim>\<open>static_checks\<close> and, when vetting passes, compiles and executes it
  with a restricted builtins table, capturing standard output (\<^verbatim>\<open>sandbox_run\<close>).

  A syntax tree is a tagged union of node classes. The classes that \<^verbatim>\<open>static_checks\<close>
  tells apart (\<^verbatim>\<open>Import\<close>, \<^verbatim>\<open>ImportFrom\<close>, \<^verbatim>\<open>Call\<close>, \<^verbatim>\<open>Attribute\<close>, \<^verbatim>\<open>Name\<close>, \<^verbatim>\<open>With\<close>,
  \<^verbatim>\<open>AsyncWith\<close>) and those the sample programs below are built from carry their fields in
  the order of the class's \<^verbatim>\<open>_fields\<close>. Every other class of the \<^verbatim>\<open>ast\<close> module is a node
  \<open>Other cls kids\<close>: its class name and its child nodes in field order
  (\<open>Other ''Load'' []\<close>, \<open>Other ''Pass'' []\<close>, \<open>Other ''alias'' []\<close>, ...). Fields that hold
  no node (\<^verbatim>\<open>type_comment\<close>, \<^verbatim>\<open>kind\<close>) are left out.
\<close>

datatype const = CNone | CBool bool | CInt int | CStr string

datatype node =
    Module "node list" "node list"               \<comment> \<open>body, type_ignores\<close>
  | Import "node list"                           \<comment> \<open>names\<close>
  | ImportFrom "string option" "node list" int   \<comment> \<open>module, names, level\<close>
  | Expr node                                    \<comment> \<open>value\<close>
  | Assign "node list" node                      \<comment> \<open>targets, value\<close>
  | With "node list" "node list"                 \<comment> \<open>items, body\<close>
  | AsyncWith "node list" "node list"            \<comment> \<open>items, body\<close>
  | Call node "node list" "node list"            \<comment> \<open>func, args, keywords\<close>
  | Attribute node string node                   \<comment> \<open>value, attr, ctx\<close>
  | Name string node                             \<comment> \<open>id, ctx\<close>
  | Subscript node node node                     \<comment> \<open>value, slice, ctx\<close>
  | BinOp node node node                         \<comment> \<open>left, op, right\<close>
  | Constant const                               \<comment> \<open>value\<close>
  | Other string "node list"                     \<comment> \<open>class name, child nodes\<close>

definition Load :: node where
  "Load = Other ''Load'' []"

definition Store :: node where
  "Store = Other ''Store'' []"

text \<open>
  \<^verbatim>\<open>ast.iter_child_nodes\<close>: the direct child nodes of a node, field by field, a list field
  contributing its items in order.
\<close>

fun iter_child_nodes :: "node \<Rightarrow> node list" where
  "iter_child_nodes (Module body type_ignores) = body @ type_ignores"
| "iter_child_nodes (Import names) = names"
| "iter_child_nodes (ImportFrom module names level) = names"
| "iter_child_nodes (Expr v) = [v]"
| "iter_child_nodes (Assign targets v) = targets @ [v]"
| "iter_child_nodes (With items body) = items @ body"
| "iter_child_nodes (AsyncWith items body) = items @ body"
| "iter_child_nodes (Call func args keywords) = func # args @ keywords"
| "iter_child_nodes (Attribute v attr ctx) = [v, ctx]"
| "iter_child_nodes (Name ident ctx) = [ctx]"
| "iter_child_nodes (Subscript v slice ctx) = [v, slice, ctx]"
| "iter_child_nodes (BinOp left op right) = [left, op, right]"
| "iter_child_nodes (Constant c) = []"
| "iter_child_nodes (Other cls kids) = kids"

text \<open>
  \<^verbatim>\<open>ast.walk\<close> is a breadth-first traversal over a queue:
  \<^verbatim>\<open>
  todo = deque([node])
  while todo:
      node = todo.popleft()
      todo.extend(iter_child_nodes(node))
      yield node
  \<close>
  The queue shrinks in the measure \<open>weight\<close>, so the walk of every tree is finite.
\<close>

definition weight :: "node list \<Rightarrow> nat" where
  "weight todo = sum_list (map (\<lambda>n. 3 * size n + 1) todo)"

lemma weight_Nil [simp]: "weight [] = 0"
  by (simp add: weight_def)

lemma weight_Cons [simp]: "weight (n # ns) = 3 * size n + 1 + weight ns"
  by (simp add: weight_def)

lemma weight_append [simp]: "weight (xs @ ys) = weight xs + weight ys"
  by (simp add: weight_def)

lemma weight_le: "weight ns \<le> 3 * size_list size ns"
  by (induction ns) simp_all

lemma weight_children: "weight (iter_child_nodes n) < 3 * size n + 1"
proof (cases n)
  case (Module b t)
  then show ?thesis using weight_le [of b] weight_le [of t] by simp
next
  case (Import a)
  then show ?thesis using weight_le [of a] by simp
next
  case (ImportFrom m a l)
  then show ?thesis using weight_le [of a] by simp
next
  case (Assign a v)
  then show ?thesis using weight_le [of a] by simp
next
  case (With a b)
  then show ?thesis using weight_le [of a] weight_le [of b] by simp
next
  case (AsyncWith a b)
  then show ?thesis using weight_le [of a] weight_le [of b] by simp
next
  case (Call f a k)
  then show ?thesis using weight_le [of a] weight_le [of k] by simp
next
  case (Other c a)
  then show ?thesis using weight_le [of a] by simp
qed simp_all

function walk_todo :: "node list \<Rightarrow> node list" where
  "walk_todo [] = []"
| "walk_todo (n # todo) = n # walk_todo (todo @ iter_child_nodes n)"
  by pat_completeness auto
termination
  using weight_children by (relation "measure weight") (simp_all add: less_Suc_eq_le)

definition walk :: "node \<Rightarrow> node list" where
  "walk tree = walk_todo [tree]"

section \<open>Process state and exceptions\<close>

text \<open>
  Values a sandboxed program of the modelled fragment can hold. \<open>VBuiltin f\<close> is the builtin
  function named \<open>f\<close>; \<open>VAllowedBuiltins\<close> is a reference to the one dict object that the
  module global \<^verbatim>\<open>ALLOWED_BUILTINS\<close> is bound to.
\<close>

datatype pyval = VNone | VBool bool | VInt int | VStr string | VBuiltin string | VAllowedBuiltins

type_synonym dict = "(string \<times> pyval) list"

text \<open>
  The module-level tables of \<^verbatim>\<open>app.py\<close>. They are ordinary mutable Python objects living as
  long as the process, so they are the state that one call could hand to the next.
\<close>

record process =
  DANGEROUS_NAMES :: "string set"
  DANGEROUS_ATTR_PARENTS :: "string set"
  ALLOWED_BUILTINS :: dict

definition initial_process :: process where
  "initial_process = \<lparr>
     DANGEROUS_NAMES = {''exec'', ''eval'', ''__import__'', ''open'', ''compile'',
       ''input'', ''help'', ''license'', ''credits'',
       ''os'', ''sys'', ''subprocess'', ''shutil'', ''pathlib'', ''socket'', ''requests''},
     DANGEROUS_ATTR_PARENTS = {''os'', ''sys'', ''subprocess'', ''shutil'', ''pathlib'', ''socket''},
     ALLOWED_BUILTINS = [
       (''print'', VBuiltin ''print''),
       (''range'', VBuiltin ''range''),
       (''len'', VBuiltin ''len''),
       (''enumerate'', VBuiltin ''enumerate''),
       (''sum'', VBuiltin ''sum''),
       (''min'', VBuiltin ''min''),
       (''max'', VBuiltin ''max''),
       (''sorted'', VBuiltin ''sorted''),
       (''abs'', VBuiltin ''abs''),
       (''any'', VBuiltin ''any''),
       (''all'', VBuiltin ''all''),
       (''zip'', VBuiltin ''zip'')] \<rparr>"

text \<open>
  \<^verbatim>\<open>SyntaxError\<close> carries the two attributes the program reads (\<^verbatim>\<open>e.lineno\<close>, \<^verbatim>\<open>e.msg\<close>);
  \<^verbatim>\<open>lineno\<close> is \<^verbatim>\<open>None\<close> or an integer. \<^verbatim>\<open>SafetyError\<close> is the program's own exception class.
  \<open>Unmodelled\<close> is no Python exception: it marks an input outside the fragment of Python
  that this development interprets.
\<close>

record syntax_error =
  lineno :: "int option"
  msg :: string

datatype exn =
    SyntaxError syntax_error
  | SafetyError string
  | NameError string
  | TypeError string
  | Unmodelled string

section \<open>The vetting analyzer\<close>

text \<open>
  The body of the loop of \<^verbatim>\<open>static_checks\<close>, one node at a time, in the order of the source:
  imports; calls (a bare-name callee in \<^verbatim>\<open>DANGEROUS_NAMES\<close>, then an attribute callee rooted at
  a name in \<^verbatim>\<open>DANGEROUS_ATTR_PARENTS\<close>); attribute access rooted at such a name; with-blocks.
  \<open>Some e\<close> is the exception raised at the node, \<open>None\<close> means the body falls through.
\<close>

fun import_check :: "node \<Rightarrow> exn option" where
  "import_check (Import names) = Some (SafetyError ''Imports are not allowed in sandbox mode.'')"
| "import_check (ImportFrom module names level) =
     Some (SafetyError ''Imports are not allowed in sandbox mode.'')"
| "import_check _ = None"

fun call_check :: "process \<Rightarrow> node \<Rightarrow> exn option" where
  "call_check p (Call (Name fid c) args keywords) =
     (if fid \<in> DANGEROUS_NAMES p
      then Some (SafetyError (''Use of '' @ [CHR 0x27] @ fid @ ''()' is not allowed in sandbox mode.''))
      else None)"
| "call_check p (Call (Attribute (Name vid c) attr c') args keywords) =
     (if vid \<in> DANGEROUS_ATTR_PARENTS p
      then Some (SafetyError (''Access to '' @ [CHR 0x27] @ vid @ ''.'' @ attr
             @ ''()' is not allowed in sandbox mode.''))
      else None)"
| "call_check p _ = None"

fun attribute_check :: "process \<Rightarrow> node \<Rightarrow> exn option" where
  "attribute_check p (Attribute (Name vid c) attr c') =
     (if vid \<in> DANGEROUS_ATTR_PARENTS p
      then Some (SafetyError (''Access to '' @ [CHR 0x27] @ vid @ ''.'' @ attr
             @ ''' is not allowed in sandbox mode.''))
      else None)"
| "attribute_check p _ = None"

fun with_check :: "node \<Rightarrow> exn option" where
  "with_check (With items body) =
     Some (SafetyError ''with/async with blocks are not allowed in sandbox mode.'')"
| "with_check (AsyncWith items body) =
     Some (SafetyError ''with/async with blocks are not allowed in sandbox mode.'')"
| "with_check _ = None"

definition check_node :: "process \<Rightarrow> node \<Rightarrow> exn option" where
  "check_node p node =
     (case import_check node of Some e \<Rightarrow> Some e | None \<Rightarrow>
      (case call_check p node of Some e \<Rightarrow> Some e | None \<Rightarrow>
       (case attribute_check p node of Some e \<Rightarrow> Some e | None \<Rightarrow>
        with_check node)))"

text \<open>
  \<^verbatim>\<open>for node in ast.walk(tree): ...\<close>: the first node whose body raises ends the loop. The
  process state is threaded through and returned, so that what the call does to the tables
  can be stated.
\<close>

fun static_checks_loop :: "node list \<Rightarrow> process \<Rightarrow> (exn + unit) \<times> process" where
  "static_checks_loop [] p = (Inr (), p)"
| "static_checks_loop (node # rest) p =
     (case check_node p node of
        Some e \<Rightarrow> (Inl e, p)
      | None \<Rightarrow> static_checks_loop rest p)"

definition static_checks :: "node \<Rightarrow> process \<Rightarrow> (exn + unit) \<times> process" where
  "static_checks tree p = static_checks_loop (walk tree) p"

section \<open>The restricted executor\<close>

text \<open>
  \<^verbatim>\<open>ast.parse\<close>, \<^verbatim>\<open>compile\<close> and \<^verbatim>\<open>exec\<close> belong to the Python runtime, not to the program, so
  \<^verbatim>\<open>sandbox_run\<close> takes them as parameters. \<open>ast_parse\<close> returns the tree or the exception it
  raises; \<open>compile\<close> returns the code object (of some type \<open>'c\<close>) or the exception it raises;
  \<open>exec\<close> receives the code object, the globals and locals dicts, the buffer that
  \<^verbatim>\<open>redirect_stdout\<close> installs as standard output, and the process state, and returns the
  exception it raised (if any), the buffer and the process state it leaves.
\<close>

record 'c runtime =
  ast_parse :: "string \<Rightarrow> exn + node"
  compile :: "node \<Rightarrow> exn + 'c"
  exec :: "'c \<Rightarrow> dict \<Rightarrow> dict \<Rightarrow> string \<Rightarrow> process \<Rightarrow> (exn + unit) \<times> string \<times> process"

text \<open>
  \<^verbatim>\<open>sandbox_run\<close>, statement by statement. An exception of any step ends the call with that
  exception; the value of the buffer is returned only when \<^verbatim>\<open>exec\<close> returns normally.
  \<^verbatim>\<open>safe_globals\<close> maps \<^verbatim>\<open>__builtins__\<close> to the dict object \<^verbatim>\<open>ALLOWED_BUILTINS\<close> itself (a
  reference, not a copy).
\<close>

definition sandbox_run :: "'c runtime \<Rightarrow> string \<Rightarrow> process \<Rightarrow> (exn + string) \<times> process" where
  "sandbox_run rt code p =
     (case ast_parse rt code of
        Inl e \<Rightarrow> (Inl e, p)
      | Inr tree \<Rightarrow>
          (case static_checks tree p of
             (Inl e, p1) \<Rightarrow> (Inl e, p1)
           | (Inr u, p1) \<Rightarrow>
               (case compile rt tree of
                  Inl e \<Rightarrow> (Inl e, p1)
                | Inr bytecode \<Rightarrow>
                    (let safe_globals = [(''__builtins__'', VAllowedBuiltins)];
                         safe_locals = [];
                         buf = []
                     in case exec rt bytecode safe_globals safe_locals buf p1 of
                          (Inl e, buf', p2) \<Rightarrow> (Inl e, p2)
                        | (Inr u', buf', p2) \<Rightarrow> (Inr buf', p2)))))"



text \<open>\<^verbatim>\<open>sub in s\<close> on strings: \<open>sub\<close> occurs in \<open>s\<close> as a contiguous run.\<close>

fun contains_str :: "string \<Rightarrow> string \<Rightarrow> bool" where
  "contains_str sub [] = (sub = [])"
| "contains_str sub (c # cs) = (take (length sub) (c # cs) = sub \<or> contains_str sub cs)"

section \<open>A fragment of the Python runtime\<close>

text \<open>
  To run \<^verbatim>\<open>sandbox_run\<close> on concrete programs, this section interprets a small fragment of
  Python as CPython executes it at module level with separate globals and locals: constants,
  name loads (locals, then globals, then the builtins dict found under \<^verbatim>\<open>__builtins__\<close> in the
  globals), \<^verbatim>\<open>+\<close>, \<^verbatim>\<open>-\<close> and \<^verbatim>\<open>*\<close> on integers, \<^verbatim>\<open>+\<close> on strings, subscripts of the builtins
  dict, calls of \<^verbatim>\<open>print\<close>, expression statements, assignments to names and to subscripts of
  the builtins dict, and \<^verbatim>\<open>pass\<close>. Everything else yields \<open>Unmodelled\<close>.
\<close>

record run_state =
  f_globals :: dict
  f_locals :: dict
  stdout :: string
  proc :: process

text \<open>\<^verbatim>\<open>d[k] = v\<close> on a dict: an existing key keeps its place, a new key goes last.\<close>

fun dict_set :: "string \<Rightarrow> pyval \<Rightarrow> dict \<Rightarrow> dict" where
  "dict_set k v [] = [(k, v)]"
| "dict_set k v ((k', v') # kvs) =
     (if k = k' then (k, v) # kvs else (k', v') # dict_set k v kvs)"

definition digit_char :: "nat \<Rightarrow> char" where
  "digit_char d = ''0123456789'' ! d"

fun str_nat :: "nat \<Rightarrow> string" where
  "str_nat n = (if n < 10 then [digit_char n] else str_nat (n div 10) @ [digit_char (n mod 10)])"

definition str_int :: "int \<Rightarrow> string" where
  "str_int i = (if i < 0 then CHR ''-'' # str_nat (nat (- i)) else str_nat (nat i))"

text \<open>
  \<^verbatim>\<open>str(v)\<close>, where modelled. CPython refuses to convert an integer of more than 4300
  digits (\<^verbatim>\<open>ValueError\<close>); that case is left unmodelled.
\<close>

fun py_str :: "pyval \<Rightarrow> string option" where
  "py_str VNone = Some ''None''"
| "py_str (VBool b) = Some (if b then ''True'' else ''False'')"
| "py_str (VInt i) =
     (if length (str_nat (nat \<bar>i\<bar>)) \<le> 4300 then Some (str_int i) else None)"
| "py_str (VStr s) = Some s"
| "py_str (VBuiltin f) = None"
| "py_str VAllowedBuiltins = None"

fun join_space :: "string list \<Rightarrow> string" where
  "join_space [] = []"
| "join_space [s] = s"
| "join_space (s # t # ss) = s @ '' '' @ join_space (t # ss)"

fun const_value :: "const \<Rightarrow> pyval" where
  "const_value CNone = VNone"
| "const_value (CBool b) = VBool b"
| "const_value (CInt i) = VInt i"
| "const_value (CStr s) = VStr s"

text \<open>
  The builtins dict of the running frame: the object stored under \<^verbatim>\<open>__builtins__\<close> in the
  globals. Looking it up reads the live \<^verbatim>\<open>ALLOWED_BUILTINS\<close> dict of the process.
\<close>

definition frame_builtins :: "run_state \<Rightarrow> exn + dict" where
  "frame_builtins s =
     (case map_of (f_globals s) ''__builtins__'' of
        Some VAllowedBuiltins \<Rightarrow> Inr (ALLOWED_BUILTINS (proc s))
      | _ \<Rightarrow> Inl (Unmodelled ''builtins''))"

definition load_name :: "string \<Rightarrow> run_state \<Rightarrow> exn + pyval" where
  "load_name ident s =
     (case map_of (f_locals s) ident of
        Some v \<Rightarrow> Inr v
      | None \<Rightarrow>
          (case map_of (f_globals s) ident of
             Some v \<Rightarrow> Inr v
           | None \<Rightarrow>
               (case frame_builtins s of
                  Inl e \<Rightarrow> Inl e
                | Inr b \<Rightarrow>
                    (case map_of b ident of
                       Some v \<Rightarrow> Inr v
                     | None \<Rightarrow> Inl (NameError (''name '' @ [CHR 0x27] @ ident
                                   @ ''' is not defined''))))))"

fun binop :: "node \<Rightarrow> pyval \<Rightarrow> pyval \<Rightarrow> exn + pyval" where
  "binop (Other cls kids) (VInt a) (VInt b) =
     (if cls = ''Add'' then Inr (VInt (a + b))
      else if cls = ''Sub'' then Inr (VInt (a - b))
      else if cls = ''Mult'' then Inr (VInt (a * b))
      else Inl (Unmodelled ''operator''))"
| "binop (Other cls kids) (VStr a) (VStr b) =
     (if cls = ''Add'' then Inr (VStr (a @ b)) else Inl (Unmodelled ''operator''))"
| "binop _ _ _ = Inl (Unmodelled ''operator'')"

fun getitem :: "pyval \<Rightarrow> pyval \<Rightarrow> run_state \<Rightarrow> exn + pyval" where
  "getitem VAllowedBuiltins (VStr k) s =
     (case map_of (ALLOWED_BUILTINS (proc s)) k of
        Some v \<Rightarrow> Inr v
      | None \<Rightarrow> Inl (Unmodelled ''KeyError''))"
| "getitem _ _ s = Inl (Unmodelled ''subscript'')"

text \<open>\<^verbatim>\<open>print(*args)\<close> writes the arguments' \<^verbatim>\<open>str\<close>, joined by spaces, and a newline.\<close>

fun call_value :: "pyval \<Rightarrow> pyval list \<Rightarrow> run_state \<Rightarrow> (exn + pyval) \<times> run_state" where
  "call_value (VBuiltin f) vs s =
     (if f = ''print'' then
        (case those (map py_str vs) of
           Some strs \<Rightarrow> (Inr VNone, s\<lparr>stdout := stdout s @ join_space strs @ [CHR 0x0A]\<rparr>)
         | None \<Rightarrow> (Inl (Unmodelled ''str''), s))
      else (Inl (Unmodelled ''builtin''), s))"
| "call_value _ vs s = (Inl (Unmodelled ''call''), s)"

fun eval :: "node \<Rightarrow> run_state \<Rightarrow> (exn + pyval) \<times> run_state"
  and eval_list :: "node list \<Rightarrow> run_state \<Rightarrow> (exn + pyval list) \<times> run_state" where
  "eval (Constant c) s = (Inr (const_value c), s)"
| "eval (Name ident ctx) s = (load_name ident s, s)"
| "eval (BinOp left op right) s =
     (case eval left s of
        (Inl e, s1) \<Rightarrow> (Inl e, s1)
      | (Inr a, s1) \<Rightarrow>
          (case eval right s1 of
             (Inl e, s2) \<Rightarrow> (Inl e, s2)
           | (Inr b, s2) \<Rightarrow> (binop op a b, s2)))"
| "eval (Subscript v slice ctx) s =
     (case eval v s of
        (Inl e, s1) \<Rightarrow> (Inl e, s1)
      | (Inr a, s1) \<Rightarrow>
          (case eval slice s1 of
             (Inl e, s2) \<Rightarrow> (Inl e, s2)
           | (Inr k, s2) \<Rightarrow> (getitem a k s2, s2)))"
| "eval (Call func args keywords) s =
     (case eval func s of
        (Inl e, s1) \<Rightarrow> (Inl e, s1)
      | (Inr f, s1) \<Rightarrow>
          (case eval_list args s1 of
             (Inl e, s2) \<Rightarrow> (Inl e, s2)
           | (Inr vs, s2) \<Rightarrow>
               (if keywords = [] then call_value f vs s2
                else (Inl (Unmodelled ''keywords''), s2))))"
| "eval (Module body type_ignores) s = (Inl (Unmodelled ''expression''), s)"
| "eval (Import names) s = (Inl (Unmodelled ''expression''), s)"
| "eval (ImportFrom module names level) s = (Inl (Unmodelled ''expression''), s)"
| "eval (Expr v) s = (Inl (Unmodelled ''expression''), s)"
| "eval (Assign targets v) s = (Inl (Unmodelled ''expression''), s)"
| "eval (With items body) s = (Inl (Unmodelled ''expression''), s)"
| "eval (AsyncWith items body) s = (Inl (Unmodelled ''expression''), s)"
| "eval (Attribute v attr ctx) s = (Inl (Unmodelled ''expression''), s)"
| "eval (Other cls kids) s = (Inl (Unmodelled ''expression''), s)"
| "eval_list [] s = (Inr [], s)"
| "eval_list (a # as) s =
     (case eval a s of
        (Inl e, s1) \<Rightarrow> (Inl e, s1)
      | (Inr v, s1) \<Rightarrow>
          (case eval_list as s1 of
             (Inl e, s2) \<Rightarrow> (Inl e, s2)
           | (Inr vs, s2) \<Rightarrow> (Inr (v # vs), s2)))"

text \<open>
  Assignment to one target. A name is stored in the locals (\<^verbatim>\<open>STORE_NAME\<close>); a subscript of
  the builtins dict writes into the \<^verbatim>\<open>ALLOWED_BUILTINS\<close> object of the process.
\<close>

fun setitem :: "pyval \<Rightarrow> pyval \<Rightarrow> pyval \<Rightarrow> run_state \<Rightarrow> (exn + unit) \<times> run_state" where
  "setitem VAllowedBuiltins (VStr k) v s =
     (Inr (), s\<lparr>proc := (proc s)\<lparr>ALLOWED_BUILTINS := dict_set k v (ALLOWED_BUILTINS (proc s))\<rparr>\<rparr>)"
| "setitem _ _ v s = (Inl (Unmodelled ''subscript store''), s)"

fun store :: "node \<Rightarrow> pyval \<Rightarrow> run_state \<Rightarrow> (exn + unit) \<times> run_state" where
  "store (Name ident ctx) v s = (Inr (), s\<lparr>f_locals := dict_set ident v (f_locals s)\<rparr>)"
| "store (Subscript obj key ctx) v s =
     (case eval obj s of
        (Inl e, s1) \<Rightarrow> (Inl e, s1)
      | (Inr d, s1) \<Rightarrow>
          (case eval key s1 of
             (Inl e, s2) \<Rightarrow> (Inl e, s2)
           | (Inr k, s2) \<Rightarrow> setitem d k v s2))"
| "store _ v s = (Inl (Unmodelled ''target''), s)"

fun store_all :: "node list \<Rightarrow> pyval \<Rightarrow> run_state \<Rightarrow> (exn + unit) \<times> run_state" where
  "store_all [] v s = (Inr (), s)"
| "store_all (t # ts) v s =
     (case store t v s of
        (Inl e, s1) \<Rightarrow> (Inl e, s1)
      | (Inr u, s1) \<Rightarrow> store_all ts v s1)"

fun exec_stmt :: "node \<Rightarrow> run_state \<Rightarrow> (exn + unit) \<times> run_state" where
  "exec_stmt (Expr v) s =
     (case eval v s of
        (Inl e, s1) \<Rightarrow> (Inl e, s1)
      | (Inr a, s1) \<Rightarrow> (Inr (), s1))"
| "exec_stmt (Assign targets v) s =
     (case eval v s of
        (Inl e, s1) \<Rightarrow> (Inl e, s1)
      | (Inr a, s1) \<Rightarrow> store_all targets a s1)"
| "exec_stmt (Other cls kids) s =
     (if cls = ''Pass'' then (Inr (), s) else (Inl (Unmodelled ''statement''), s))"
| "exec_stmt _ s = (Inl (Unmodelled ''statement''), s)"

fun exec_body :: "node list \<Rightarrow> run_state \<Rightarrow> (exn + unit) \<times> run_state" where
  "exec_body [] s = (Inr (), s)"
| "exec_body (stmt # rest) s =
     (case exec_stmt stmt s of
        (Inl e, s1) \<Rightarrow> (Inl e, s1)
      | (Inr u, s1) \<Rightarrow> exec_body rest s1)"

fun py_exec :: "node \<Rightarrow> dict \<Rightarrow> dict \<Rightarrow> string \<Rightarrow> process \<Rightarrow> (exn + unit) \<times> string \<times> process" where
  "py_exec (Module body type_ignores) g l buf p =
     (case exec_body body \<lparr>f_globals = g, f_locals = l, stdout = buf, proc = p\<rparr> of
        (r, s) \<Rightarrow> (r, stdout s, proc s))"
| "py_exec _ g l buf p = (Inl (Unmodelled ''module''), buf, p)"

section \<open>Sample programs\<close>

text \<open>
  The trees that \<^verbatim>\<open>ast.parse(code, mode="exec")\<close> of CPython (3.9 and later) returns for the
  sample sources used in this development, as \<^verbatim>\<open>ast.dump\<close> shows them.
\<close>

definition tree_print_2_plus_2 :: node where
  \<comment> \<open>\<^verbatim>\<open>print(2 + 2)\<close>\<close>
  "tree_print_2_plus_2 =
     Module [Expr (Call (Name ''print'' Load)
       [BinOp (Constant (CInt 2)) (Other ''Add'' []) (Constant (CInt 2))] [])] []"

definition tree_import_os :: node where
  \<comment> \<open>\<^verbatim>\<open>import os\<close>\<close>
  "tree_import_os = Module [Import [Other ''alias'' []]] []"

definition tree_eval_call :: node where
  \<comment> \<open>\<^verbatim>\<open>eval('1')\<close>\<close>
  "tree_eval_call = Module [Expr (Call (Name ''eval'' Load) [Constant (CStr ''1'')] [])] []"

definition tree_import_then_eval :: node where
  \<comment> \<open>\<^verbatim>\<open>import os\<close>, newline, \<^verbatim>\<open>eval('1')\<close>\<close>
  "tree_import_then_eval =
     Module [Import [Other ''alias'' []],
             Expr (Call (Name ''eval'' Load) [Constant (CStr ''1'')] [])] []"

definition tree_os_system :: node where
  \<comment> \<open>\<^verbatim>\<open>os.system('x')\<close>\<close>
  "tree_os_system =
     Module [Expr (Call (Attribute (Name ''os'' Load) ''system'' Load)
       [Constant (CStr ''x'')] [])] []"

definition tree_import_then_os_system :: node where
  \<comment> \<open>\<^verbatim>\<open>import os\<close>, newline, \<^verbatim>\<open>os.system('x')\<close>\<close>
  "tree_import_then_os_system =
     Module [Import [Other ''alias'' []],
             Expr (Call (Attribute (Name ''os'' Load) ''system'' Load)
               [Constant (CStr ''x'')] [])] []"

definition tree_with_pass :: node where
  \<comment> \<open>\<^verbatim>\<open>with a:\<close>, newline, \<^verbatim>\<open>    pass\<close>\<close>
  "tree_with_pass =
     Module [With [Other ''withitem'' [Name ''a'' Load]] [Other ''Pass'' []]] []"

definition tree_requests_get :: node where
  \<comment> \<open>\<^verbatim>\<open>requests.get('http://x')\<close>\<close>
  "tree_requests_get =
     Module [Expr (Call (Attribute (Name ''requests'' Load) ''get'' Load)
       [Constant (CStr ''http://x'')] [])] []"

definition tree_requests_call :: node where
  \<comment> \<open>\<^verbatim>\<open>requests('http://x')\<close>\<close>
  "tree_requests_call =
     Module [Expr (Call (Name ''requests'' Load) [Constant (CStr ''http://x'')] [])] []"

definition tree_x_eq_eval :: node where
  \<comment> \<open>\<^verbatim>\<open>x = eval\<close>\<close>
  "tree_x_eq_eval = Module [Assign [Name ''x'' Store] (Name ''eval'' Load)] []"

definition tree_print_eval :: node where
  \<comment> \<open>\<^verbatim>\<open>print(eval)\<close>\<close>
  "tree_print_eval = Module [Expr (Call (Name ''print'' Load) [Name ''eval'' Load] [])] []"

definition tree_x_eq_1 :: node where
  \<comment> \<open>\<^verbatim>\<open>x = 1\<close>\<close>
  "tree_x_eq_1 = Module [Assign [Name ''x'' Store] (Constant (CInt 1))] []"

definition tree_print_x :: node where
  \<comment> \<open>\<^verbatim>\<open>print(x)\<close>\<close>
  "tree_print_x = Module [Expr (Call (Name ''print'' Load) [Name ''x'' Load] [])] []"

definition tree_builtins_x_eq_1 :: node where
  \<comment> \<open>\<^verbatim>\<open>__builtins__['x'] = 1\<close>\<close>
  "tree_builtins_x_eq_1 =
     Module [Assign [Subscript (Name ''__builtins__'' Load) (Constant (CStr ''x'')) Store]
       (Constant (CInt 1))] []"

text \<open>
  \<^verbatim>\<open>ast.parse\<close> on those sources, and on two sources that do not parse: an unclosed
  parenthesis, and a source holding a null byte, for which CPython raises a \<^verbatim>\<open>SyntaxError\<close>
  whose \<^verbatim>\<open>lineno\<close> is \<^verbatim>\<open>None\<close>. Sources outside the table are \<open>Unmodelled\<close>.
\<close>

definition sample_parse :: "string \<Rightarrow> exn + node" where
  "sample_parse code =
     (if code = ''print(2 + 2)'' then Inr tree_print_2_plus_2
      else if code = ''import os'' then Inr tree_import_os
      else if code = ''eval('1')'' then Inr tree_eval_call
      else if code = ''import os'' @ [CHR 0x0A] @ ''eval('1')'' then Inr tree_import_then_eval
      else if code = ''os.system('x')'' then Inr tree_os_system
      else if code = ''import os'' @ [CHR 0x0A] @ ''os.system('x')''
        then Inr tree_import_then_os_system
      else if code = ''with a:'' @ [CHR 0x0A] @ ''    pass'' then Inr tree_with_pass
      else if code = ''requests.get('http://x')'' then Inr tree_requests_get
      else if code = ''requests('http://x')'' then Inr tree_requests_call
      else if code = ''x = eval'' then Inr tree_x_eq_eval
      else if code = ''print(eval)'' then Inr tree_print_eval
      else if code = ''x = 1'' then Inr tree_x_eq_1
      else if code = ''print(x)'' then Inr tree_print_x
      else if code = ''__builtins__['x'] = 1'' then Inr tree_builtins_x_eq_1
      else if code = ''('' then
        Inl (SyntaxError \<lparr>lineno = Some 1, msg = [CHR 0x27] @ ''(' was never closed''\<rparr>)
      else if code = [CHR 0x00] then
        Inl (SyntaxError \<lparr>lineno = None, msg = ''source code string cannot contain null bytes''\<rparr>)
      else Inl (Unmodelled ''ast.parse''))"

text \<open>
  The runtime used on the samples: the parse table, a \<^verbatim>\<open>compile\<close> that succeeds (as it does on
  these trees) with the tree as its own code object, and the interpreter of the fragment.
\<close>

definition sample_runtime :: "node runtime" where
  "sample_runtime = \<lparr>ast_parse = sample_parse, compile = Inr, exec = py_exec\<rparr>"

text \<open>
  The shapes of node that vetting is meant to refuse, as the rules name them: an import, a
  with-block, a call of a denied bare name, an attribute call rooted at a denied parent, and
  an attribute access rooted at a denied parent. Every other node, a bare name among them,
  has none of these shapes.
\<close>

fun offending_shape :: "process \<Rightarrow> node \<Rightarrow> bool" where
  "offending_shape p (Import names) = True"
| "offending_shape p (ImportFrom module names level) = True"
| "offending_shape p (With items body) = True"
| "offending_shape p (AsyncWith items body) = True"
| "offending_shape p (Call (Name fid ctx) args keywords) = (fid \<in> DANGEROUS_NAMES p)"
| "offending_shape p (Call (Attribute (Name vid ctx) attr ctx') args keywords) =
     (vid \<in> DANGEROUS_ATTR_PARENTS p)"
| "offending_shape p (Attribute (Name vid ctx) attr ctx') = (vid \<in> DANGEROUS_ATTR_PARENTS p)"
| "offending_shape p _ = False"

section \<open>Properties of the walk and of the vetting loop\<close>

lemma import_check_SafetyError: "import_check n = Some e \<Longrightarrow> \<exists>m. e = SafetyError m"
  by (cases n) auto

lemma call_check_SafetyError: "call_check p n = Some e \<Longrightarrow> \<exists>m. e = SafetyError m"
  by (induction p n rule: call_check.induct) (auto split: if_splits)

lemma attribute_check_SafetyError: "attribute_check p n = Some e \<Longrightarrow> \<exists>m. e = SafetyError m"
  by (induction p n rule: attribute_check.induct) (auto split: if_splits)

lemma with_check_SafetyError: "with_check n = Some e \<Longrightarrow> \<exists>m. e = SafetyError m"
  by (cases n) auto

lemma check_node_SafetyError: "check_node p n = Some e \<Longrightarrow> \<exists>m. e = SafetyError m"
  unfolding check_node_def
  by (auto split: option.splits
      dest: import_check_SafetyError call_check_SafetyError attribute_check_SafetyError
        with_check_SafetyError)

lemma static_checks_loop_state: "snd (static_checks_loop ns p) = p"
  by (induction ns) (auto split: option.splits)

lemma static_checks_loop_accepts:
  "static_checks_loop ns p = (Inr (), p) \<longleftrightarrow> (\<forall>n\<in>set ns. check_node p n = None)"
  by (induction ns) (auto split: option.splits)

lemma static_checks_loop_first:
  "\<forall>m\<in>set pre. check_node p m = None \<Longrightarrow> check_node p n = Some e
    \<Longrightarrow> static_checks_loop (pre @ n # post) p = (Inl e, p)"
  by (induction pre) auto

lemma static_checks_loop_rejects:
  "n \<in> set ns \<Longrightarrow> check_node p n = Some e
    \<Longrightarrow> \<exists>m. static_checks_loop ns p = (Inl (SafetyError m), p)"
proof (induction ns)
  case Nil
  then show ?case by simp
next
  case (Cons a ns)
  show ?case
  proof (cases "check_node p a")
    case None
    with Cons show ?thesis by auto
  next
    case (Some e')
    then obtain m where "e' = SafetyError m"
      using check_node_SafetyError by blast
    with Some show ?thesis by auto
  qed
qed

lemma walk_todo_superset: "set todo \<subseteq> set (walk_todo todo)"
  by (induction todo rule: walk_todo.induct) auto

lemma walk_todo_children:
  "n \<in> set (walk_todo todo) \<Longrightarrow> set (iter_child_nodes n) \<subseteq> set (walk_todo todo)"
proof (induction todo rule: walk_todo.induct)
  case 1
  then show ?case by simp
next
  case (2 a todo)
  show ?case
  proof (cases "n = a")
    case True
    have "set (iter_child_nodes a) \<subseteq> set (walk_todo (todo @ iter_child_nodes a))"
      using walk_todo_superset [of "todo @ iter_child_nodes a"] by simp
    with True show ?thesis by auto
  next
    case False
    with 2 show ?thesis by auto
  qed
qed

lemma walk_root: "tree \<in> set (walk tree)"
  using walk_todo_superset [of "[tree]"] by (simp add: walk_def)

lemma walk_children:
  "n \<in> set (walk tree) \<Longrightarrow> k \<in> set (iter_child_nodes n) \<Longrightarrow> k \<in> set (walk tree)"
  using walk_todo_children [of n "[tree]"] by (auto simp: walk_def)


lemma sandbox_run_rejected:
  "ast_parse rt code = Inr tree \<Longrightarrow> static_checks tree p = (Inl e, p')
    \<Longrightarrow> sandbox_run rt code p = (Inl e, p')"
  by (simp add: sandbox_run_def)

lemma sandbox_run_parse_error:
  "ast_parse rt code = Inl e \<Longrightarrow> sandbox_run rt code p = (Inl e, p)"
  by (simp add: sandbox_run_def)

lemma static_checks_rejects:
  "n \<in> set (walk tree) \<Longrightarrow> check_node p n = Some e
    \<Longrightarrow> \<exists>m. static_checks tree p = (Inl (SafetyError m), p)"
  unfolding static_checks_def by (rule static_checks_loop_rejects)

lemma static_checks_first:
  "walk tree = pre @ n # post \<Longrightarrow> \<forall>k\<in>set pre. check_node p k = None
    \<Longrightarrow> check_node p n = Some e \<Longrightarrow> static_checks tree p = (Inl e, p)"
  unfolding static_checks_def by (simp add: static_checks_loop_first)

lemma contains_str_prefix: "contains_str x (x @ b)"
proof (cases "x @ b")
  case Nil
  then show ?thesis by simp
next
  case (Cons c cs)
  have "take (length x) (x @ b) = x" by simp
  with Cons have "take (length x) (c # cs) = x" by simp
  then have "contains_str x (c # cs)" by simp
  with Cons show ?thesis by simp
qed

lemma contains_str_mid: "contains_str x (a @ x @ b)"
proof (induction a)
  case Nil
  show ?case using contains_str_prefix by simp
next
  case (Cons c a)
  then show ?case by simp
qed

section \<open>Claims\<close>

text \<open>
  C1. Every source that parses to a tree holding an import statement (\<^verbatim>\<open>import ...\<close> or
  \<^verbatim>\<open>from ... import ...\<close>) makes \<^verbatim>\<open>sandbox_run\<close> raise \<^verbatim>\<open>SafetyError\<close> during vetting: no output
  is returned, the process state is untouched, and neither \<^verbatim>\<open>compile\<close> nor \<^verbatim>\<open>exec\<close> is
  reached, since replacing them by anything leaves the outcome as it is.
\<close>

theorem import_rejected_before_execution:
  assumes "ast_parse rt code = Inr tree"
    and "n \<in> set (walk tree)"
    and "n = Import names \<or> n = ImportFrom module names' level"
  shows "(\<exists>m. sandbox_run rt code p = (Inl (SafetyError m), p))
    \<and> sandbox_run (rt\<lparr>compile := c, exec := x\<rparr>) code p = sandbox_run rt code p"
proof -
  from assms(3) have "check_node p n = Some (SafetyError ''Imports are not allowed in sandbox mode.'')"
    by (auto simp: check_node_def)
  with assms(2) obtain m where m: "static_checks tree p = (Inl (SafetyError m), p)"
    using static_checks_rejects by blast
  have "sandbox_run rt code p = (Inl (SafetyError m), p)"
    using assms(1) m by (rule sandbox_run_rejected)
  moreover have "sandbox_run (rt\<lparr>compile := c, exec := x\<rparr>) code p = (Inl (SafetyError m), p)"
    using m by (intro sandbox_run_rejected) (simp_all add: assms(1))
  ultimately show ?thesis by simp
qed

theorem import_rejected_before_execution_witness:
  "ast_parse sample_runtime ''import os'' = Inr tree_import_os
   \<and> Import [Other ''alias'' []] \<in> set (walk tree_import_os)
   \<and> (\<exists>m. sandbox_run sample_runtime ''import os'' initial_process
            = (Inl (SafetyError m), initial_process))"
proof -
  have h1: "ast_parse sample_runtime ''import os'' = Inr tree_import_os"
    by (simp add: sample_runtime_def sample_parse_def)
  have h2: "Import [Other ''alias'' []] \<in> set (walk tree_import_os)"
    by (simp add: walk_def tree_import_os_def)
  have h3: "Import [Other ''alias'' []] = Import [Other ''alias'' []]
      \<or> Import [Other ''alias'' []] = ImportFrom None [] 0"
    by simp
  from import_rejected_before_execution [OF h1 h2 h3] h1 h2 show ?thesis
    by blast
qed

text \<open>
  C2 (amended). Every source that parses to a tree holding a direct call whose callee is a
  bare name in \<^verbatim>\<open>DANGEROUS_NAMES\<close> makes \<^verbatim>\<open>sandbox_run\<close> raise \<^verbatim>\<open>SafetyError\<close> before anything is
  compiled or executed. The message is that of the first offending node of the walk: when
  that node is this call, it is \<^verbatim>\<open>Use of '<name>()' is not allowed in sandbox mode.\<close> and names
  the identifier.
\<close>

theorem denied_call_rejected:
  assumes "ast_parse rt code = Inr tree"
    and "walk tree = pre @ Call (Name fid ctx) args keywords # post"
    and "fid \<in> DANGEROUS_NAMES p"
  shows "(\<exists>m. sandbox_run rt code p = (Inl (SafetyError m), p))
    \<and> sandbox_run (rt\<lparr>compile := c, exec := x\<rparr>) code p = sandbox_run rt code p
    \<and> ((\<forall>k\<in>set pre. check_node p k = None) \<longrightarrow>
         sandbox_run rt code p
           = (Inl (SafetyError (''Use of '' @ [CHR 0x27] @ fid @ ''()' is not allowed in sandbox mode.'')), p)
         \<and> contains_str fid (''Use of '' @ [CHR 0x27] @ fid @ ''()' is not allowed in sandbox mode.''))"
proof -
  let ?n = "Call (Name fid ctx) args keywords"
  let ?msg = "''Use of '' @ [CHR 0x27] @ fid @ ''()' is not allowed in sandbox mode.''"
  have chk: "check_node p ?n = Some (SafetyError ?msg)"
    using assms(3) by (simp add: check_node_def)
  have "?n \<in> set (walk tree)"
    using assms(2) by simp
  with chk obtain m where m: "static_checks tree p = (Inl (SafetyError m), p)"
    using static_checks_rejects by blast
  have r1: "sandbox_run rt code p = (Inl (SafetyError m), p)"
    using assms(1) m by (rule sandbox_run_rejected)
  have r2: "sandbox_run (rt\<lparr>compile := c, exec := x\<rparr>) code p = (Inl (SafetyError m), p)"
    using m by (intro sandbox_run_rejected) (simp_all add: assms(1))
  have r3: "sandbox_run rt code p = (Inl (SafetyError ?msg), p)"
    if "\<forall>k\<in>set pre. check_node p k = None"
    using assms(1) static_checks_first [OF assms(2) that chk] by (rule sandbox_run_rejected)
  have r4: "contains_str fid ?msg"
    using contains_str_mid [of fid "''Use of '' @ [CHR 0x27]" "''()' is not allowed in sandbox mode.''"]
    by simp
  from r1 r2 r3 r4 show ?thesis by simp
qed

theorem denied_call_rejected_witness:
  "ast_parse sample_runtime ''eval('1')'' = Inr tree_eval_call
   \<and> walk tree_eval_call
       = [tree_eval_call, Expr (Call (Name ''eval'' Load) [Constant (CStr ''1'')] [])]
         @ Call (Name ''eval'' Load) [Constant (CStr ''1'')] []
         # [Name ''eval'' Load, Constant (CStr ''1''), Load]
   \<and> ''eval'' \<in> DANGEROUS_NAMES initial_process
   \<and> sandbox_run sample_runtime ''eval('1')'' initial_process
       = (Inl (SafetyError (''Use of '' @ [CHR 0x27] @ ''eval()' is not allowed in sandbox mode.'')),
          initial_process)"
proof -
  have h1: "ast_parse sample_runtime ''eval('1')'' = Inr tree_eval_call"
    by (simp add: sample_runtime_def sample_parse_def)
  have h2: "walk tree_eval_call
       = [tree_eval_call, Expr (Call (Name ''eval'' Load) [Constant (CStr ''1'')] [])]
         @ Call (Name ''eval'' Load) [Constant (CStr ''1'')] []
         # [Name ''eval'' Load, Constant (CStr ''1''), Load]"
    by (simp add: walk_def tree_eval_call_def Load_def)
  have h3: "''eval'' \<in> DANGEROUS_NAMES initial_process"
    by (simp add: initial_process_def)
  have h4: "\<forall>k\<in>set [tree_eval_call, Expr (Call (Name ''eval'' Load) [Constant (CStr ''1'')] [])].
      check_node initial_process k = None"
    by (simp add: check_node_def tree_eval_call_def)
  from denied_call_rejected [OF h1 h2 h3] h4 h1 h2 h3 show ?thesis
    by simp
qed

text \<open>
  C2 as stated fails: in \<^verbatim>\<open>import os\<close> followed by \<^verbatim>\<open>eval('1')\<close> the walk meets the import
  first, and the message raised does not name \<^verbatim>\<open>eval\<close>.
\<close>

theorem denied_call_message_counterexample:
  "ast_parse sample_runtime (''import os'' @ [CHR 0x0A] @ ''eval('1')'') = Inr tree_import_then_eval
   \<and> Call (Name ''eval'' Load) [Constant (CStr ''1'')] [] \<in> set (walk tree_import_then_eval)
   \<and> ''eval'' \<in> DANGEROUS_NAMES initial_process
   \<and> sandbox_run sample_runtime (''import os'' @ [CHR 0x0A] @ ''eval('1')'') initial_process
       = (Inl (SafetyError ''Imports are not allowed in sandbox mode.''), initial_process)
   \<and> \<not> contains_str ''eval'' ''Imports are not allowed in sandbox mode.''"
  by (simp add: sample_runtime_def sample_parse_def sandbox_run_def static_checks_def walk_def
      tree_import_then_eval_def check_node_def initial_process_def)

text \<open>
  C3 (amended). Every tree holding an attribute access \<^verbatim>\<open><name>.<attr>\<close> whose root is a bare
  name in \<^verbatim>\<open>DANGEROUS_ATTR_PARENTS\<close> is rejected with a \<^verbatim>\<open>SafetyError\<close>, be it a plain read or
  the callee of a call. The message is that of the first offending node of the walk: when
  that node is the call \<^verbatim>\<open><name>.<attr>(...)\<close> it is
  \<^verbatim>\<open>Access to '<name>.<attr>()' is not allowed in sandbox mode.\<close>, naming root and attribute,
  and when it is the plain access it is the same without the parentheses.
\<close>

theorem dangerous_attribute_rejected:
  assumes "walk tree = pre @ n # post"
    and "vid \<in> DANGEROUS_ATTR_PARENTS p"
    and "n = Attribute (Name vid ctx) attr ctx'
       \<or> n = Call (Attribute (Name vid ctx) attr ctx') args keywords"
  shows "(\<exists>m. static_checks tree p = (Inl (SafetyError m), p))
    \<and> ((\<forall>k\<in>set pre. check_node p k = None) \<longrightarrow>
         (\<exists>m. static_checks tree p = (Inl (SafetyError m), p)
            \<and> m = ''Access to '' @ [CHR 0x27] @ vid @ ''.'' @ attr
                 @ (if n = Attribute (Name vid ctx) attr ctx' then [] else ''()'')
                 @ ''' is not allowed in sandbox mode.''
            \<and> contains_str vid m \<and> contains_str attr m))"
proof -
  let ?m = "''Access to '' @ [CHR 0x27] @ vid @ ''.'' @ attr
      @ (if n = Attribute (Name vid ctx) attr ctx' then [] else ''()'')
      @ ''' is not allowed in sandbox mode.''"
  have chk: "check_node p n = Some (SafetyError ?m)"
    using assms(2,3) by (auto simp: check_node_def)
  have "n \<in> set (walk tree)"
    using assms(1) by simp
  with chk have r1: "\<exists>m. static_checks tree p = (Inl (SafetyError m), p)"
    using static_checks_rejects by blast
  have r2: "static_checks tree p = (Inl (SafetyError ?m), p)"
    if "\<forall>k\<in>set pre. check_node p k = None"
    using static_checks_first [OF assms(1) that chk] .
  have r3: "contains_str vid ?m"
    using contains_str_mid [of vid "''Access to '' @ [CHR 0x27]" "''.'' @ attr
      @ (if n = Attribute (Name vid ctx) attr ctx' then [] else ''()'')
      @ ''' is not allowed in sandbox mode.''"]
    by simp
  have r4: "contains_str attr ?m"
    using contains_str_mid [of attr "''Access to '' @ [CHR 0x27] @ vid @ ''.''"
      "(if n = Attribute (Name vid ctx) attr ctx' then [] else ''()'')
      @ ''' is not allowed in sandbox mode.''"]
    by simp
  from r1 r2 r3 r4 show ?thesis by blast
qed

theorem dangerous_attribute_rejected_witness:
  "walk tree_os_system
     = [tree_os_system,
        Expr (Call (Attribute (Name ''os'' Load) ''system'' Load) [Constant (CStr ''x'')] [])]
       @ Call (Attribute (Name ''os'' Load) ''system'' Load) [Constant (CStr ''x'')] []
       # [Attribute (Name ''os'' Load) ''system'' Load, Constant (CStr ''x''),
          Name ''os'' Load, Load, Load]
   \<and> ''os'' \<in> DANGEROUS_ATTR_PARENTS initial_process
   \<and> static_checks tree_os_system initial_process
       = (Inl (SafetyError (''Access to '' @ [CHR 0x27] @ ''os.system()' is not allowed in sandbox mode.'')),
          initial_process)"
proof -
  let ?call = "Call (Attribute (Name ''os'' Load) ''system'' Load) [Constant (CStr ''x'')] []"
  let ?pre = "[tree_os_system, Expr ?call]"
  have h1: "walk tree_os_system
     = ?pre @ ?call # [Attribute (Name ''os'' Load) ''system'' Load, Constant (CStr ''x''),
          Name ''os'' Load, Load, Load]"
    by (simp add: walk_def tree_os_system_def Load_def)
  have h2: "''os'' \<in> DANGEROUS_ATTR_PARENTS initial_process"
    by (simp add: initial_process_def)
  have h3: "?call = Attribute (Name ''os'' Load) ''system'' Load
       \<or> ?call = Call (Attribute (Name ''os'' Load) ''system'' Load) [Constant (CStr ''x'')] []"
    by simp
  have h4: "\<forall>k\<in>set ?pre. check_node initial_process k = None"
    by (simp add: check_node_def tree_os_system_def)
  from dangerous_attribute_rejected [OF h1 h2 h3] h4 h1 h2 show ?thesis
    by simp
qed

text \<open>
  C3 as stated fails: in \<^verbatim>\<open>import os\<close> followed by \<^verbatim>\<open>os.system('x')\<close> the walk meets the
  import first, and the message raised names neither \<^verbatim>\<open>os\<close> nor \<^verbatim>\<open>system\<close>.
\<close>

theorem dangerous_attribute_message_counterexample:
  "Call (Attribute (Name ''os'' Load) ''system'' Load) [Constant (CStr ''x'')] []
     \<in> set (walk tree_import_then_os_system)
   \<and> ''os'' \<in> DANGEROUS_ATTR_PARENTS initial_process
   \<and> static_checks tree_import_then_os_system initial_process
       = (Inl (SafetyError ''Imports are not allowed in sandbox mode.''), initial_process)
   \<and> \<not> contains_str ''os'' ''Imports are not allowed in sandbox mode.''
   \<and> \<not> contains_str ''system'' ''Imports are not allowed in sandbox mode.''"
  by (simp add: static_checks_def walk_def tree_import_then_os_system_def check_node_def
      initial_process_def)



text \<open>
  C5 (amended). Every call of \<^verbatim>\<open>sandbox_run\<close> that reaches execution hands \<^verbatim>\<open>exec\<close> the same
  fresh namespaces, whatever earlier calls did: globals holding only \<^verbatim>\<open>__builtins__\<close>, empty
  locals and an empty output buffer. A name bound by assignment in one call is therefore
  not bound in the next one.
\<close>

theorem fresh_namespace_each_call:
  assumes "ast_parse rt code = Inr tree"
    and "static_checks tree p = (Inr (), p)"
    and "compile rt tree = Inr bytecode"
  shows "sandbox_run rt code p =
    (case exec rt bytecode [(''__builtins__'', VAllowedBuiltins)] [] [] p of
       (Inl e, buf, p') \<Rightarrow> (Inl e, p')
     | (Inr u, buf, p') \<Rightarrow> (Inr buf, p'))"
  by (simp add: sandbox_run_def assms)

theorem fresh_namespace_each_call_witness:
  "sandbox_run sample_runtime ''x = 1'' initial_process = (Inr [], initial_process)
   \<and> ast_parse sample_runtime ''print(x)'' = Inr tree_print_x
   \<and> static_checks tree_print_x (snd (sandbox_run sample_runtime ''x = 1'' initial_process))
       = (Inr (), snd (sandbox_run sample_runtime ''x = 1'' initial_process))
   \<and> compile sample_runtime tree_print_x = Inr tree_print_x
   \<and> sandbox_run sample_runtime ''print(x)''
        (snd (sandbox_run sample_runtime ''x = 1'' initial_process))
       = (Inl (NameError (''name '' @ [CHR 0x27] @ ''x' is not defined'')), initial_process)"
proof -
  have first: "sandbox_run sample_runtime ''x = 1'' initial_process = (Inr [], initial_process)"
    by (simp add: sample_runtime_def sample_parse_def sandbox_run_def static_checks_def walk_def
        tree_x_eq_1_def check_node_def Store_def)
  have h1: "ast_parse sample_runtime ''print(x)'' = Inr tree_print_x"
    by (simp add: sample_runtime_def sample_parse_def)
  have vet: "static_checks tree_print_x initial_process = (Inr (), initial_process)"
    by (simp add: static_checks_def walk_def tree_print_x_def check_node_def
        initial_process_def Load_def)
  have h2: "static_checks tree_print_x (snd (sandbox_run sample_runtime ''x = 1'' initial_process))
       = (Inr (), snd (sandbox_run sample_runtime ''x = 1'' initial_process))"
    using vet by (simp only: first snd_conv)
  have h3: "compile sample_runtime tree_print_x = Inr tree_print_x"
    by (simp add: sample_runtime_def)
  have run: "exec sample_runtime tree_print_x [(''__builtins__'', VAllowedBuiltins)] [] [] initial_process
      = (Inl (NameError (''name '' @ [CHR 0x27] @ ''x' is not defined'')), [], initial_process)"
    by (simp add: sample_runtime_def tree_print_x_def load_name_def frame_builtins_def
        initial_process_def Load_def)
  from fresh_namespace_each_call [OF h1 h2 h3] first h1 h2 h3 run show ?thesis
    by simp
qed

text \<open>
  C5 as stated fails: the \<^verbatim>\<open>ALLOWED_BUILTINS\<close> dict is handed to every run by reference, and
  a run reaches it under the name \<^verbatim>\<open>__builtins__\<close>. After a call with the source
  \<^verbatim>\<open>__builtins__['x'] = 1\<close>, a call with \<^verbatim>\<open>print(x)\<close> prints 1, where in a fresh process it
  raises \<^verbatim>\<open>NameError\<close>.
\<close>

theorem builtins_table_survives_counterexample:
  "fst (sandbox_run sample_runtime ''__builtins__['x'] = 1'' initial_process) = Inr []
   \<and> fst (sandbox_run sample_runtime ''print(x)''
           (snd (sandbox_run sample_runtime ''__builtins__['x'] = 1'' initial_process)))
       = Inr (''1'' @ [CHR 0x0A])
   \<and> fst (sandbox_run sample_runtime ''print(x)'' initial_process)
       = Inl (NameError (''name '' @ [CHR 0x27] @ ''x' is not defined''))"
  by (simp add: sample_runtime_def sample_parse_def sandbox_run_def static_checks_def walk_def
      tree_builtins_x_eq_1_def tree_print_x_def check_node_def initial_process_def Load_def
      Store_def load_name_def frame_builtins_def str_int_def digit_char_def)

text \<open>
  C6 (amended). When \<^verbatim>\<open>ast.parse\<close> raises a \<^verbatim>\<open>SyntaxError\<close>, \<^verbatim>\<open>sandbox_run\<close> fails with that
  very exception, with the line number and message the parser gave it. It is no
  \<^verbatim>\<open>SafetyError\<close>, and it is raised before vetting, compilation and execution: the outcome is
  the same for every state of the deny tables and for every \<^verbatim>\<open>compile\<close> and \<^verbatim>\<open>exec\<close>.
\<close>

theorem parse_error_forwarded:
  assumes "ast_parse rt code = Inl (SyntaxError e)"
  shows "sandbox_run rt code p = (Inl (SyntaxError e), p)
    \<and> SyntaxError e \<noteq> SafetyError m
    \<and> fst (sandbox_run rt code p') = fst (sandbox_run rt code p)
    \<and> sandbox_run (rt\<lparr>compile := c, exec := x\<rparr>) code p = sandbox_run rt code p"
proof -
  have "sandbox_run rt code q = (Inl (SyntaxError e), q)" for q
    using assms by (rule sandbox_run_parse_error)
  moreover have "sandbox_run (rt\<lparr>compile := c, exec := x\<rparr>) code p = (Inl (SyntaxError e), p)"
    by (rule sandbox_run_parse_error) (simp add: assms)
  ultimately show ?thesis by simp
qed

theorem parse_error_forwarded_witness:
  "ast_parse sample_runtime ''(''
     = Inl (SyntaxError \<lparr>lineno = Some 1, msg = [CHR 0x27] @ ''(' was never closed''\<rparr>)
   \<and> sandbox_run sample_runtime ''('' initial_process
     = (Inl (SyntaxError \<lparr>lineno = Some 1, msg = [CHR 0x27] @ ''(' was never closed''\<rparr>),
        initial_process)"
proof -
  have h1: "ast_parse sample_runtime ''(''
     = Inl (SyntaxError \<lparr>lineno = Some 1, msg = [CHR 0x27] @ ''(' was never closed''\<rparr>)"
    by (simp add: sample_runtime_def sample_parse_def)
  from parse_error_forwarded [OF h1] h1 show ?thesis
    by simp
qed

text \<open>
  C6 as stated fails: for a source holding a null byte, \<^verbatim>\<open>ast.parse\<close> raises a \<^verbatim>\<open>SyntaxError\<close>
  whose line number is \<^verbatim>\<open>None\<close>, and \<^verbatim>\<open>sandbox_run\<close> passes it on as it is.
\<close>

theorem parse_error_lineno_counterexample:
  "sandbox_run sample_runtime [CHR 0x00] initial_process
     = (Inl (SyntaxError \<lparr>lineno = None, msg = ''source code string cannot contain null bytes''\<rparr>),
        initial_process)
   \<and> lineno \<lparr>lineno = None, msg = ''source code string cannot contain null bytes''\<rparr> = None"
  by (simp add: sample_runtime_def sample_parse_def sandbox_run_def)

text \<open>
  C7. Every tree holding a \<^verbatim>\<open>with\<close> or \<^verbatim>\<open>async with\<close> block is rejected with a \<^verbatim>\<open>SafetyError\<close>,
  whatever its items and body are.
\<close>

theorem with_block_rejected:
  assumes "n \<in> set (walk tree)"
    and "n = With items body \<or> n = AsyncWith items body"
  shows "\<exists>m. static_checks tree p = (Inl (SafetyError m), p)"
proof -
  from assms(2)
  have "check_node p n = Some (SafetyError ''with/async with blocks are not allowed in sandbox mode.'')"
    by (auto simp: check_node_def)
  with assms(1) show ?thesis
    using static_checks_rejects by blast
qed

theorem with_block_rejected_witness:
  "With [Other ''withitem'' [Name ''a'' Load]] [Other ''Pass'' []] \<in> set (walk tree_with_pass)
   \<and> (\<exists>m. static_checks tree_with_pass initial_process = (Inl (SafetyError m), initial_process))"
proof -
  have h1: "With [Other ''withitem'' [Name ''a'' Load]] [Other ''Pass'' []]
      \<in> set (walk tree_with_pass)"
    by (simp add: walk_def tree_with_pass_def)
  from with_block_rejected [OF h1, of "[Other ''withitem'' [Name ''a'' Load]]" "[Other ''Pass'' []]"] h1
  show ?thesis by blast
qed

text \<open>
  C8. Vetting is idempotent and free of side effects: a call of \<^verbatim>\<open>static_checks\<close> leaves the
  process state, and with it the \<^verbatim>\<open>DANGEROUS_NAMES\<close> and \<^verbatim>\<open>DANGEROUS_ATTR_PARENTS\<close> tables, as it
  found them, and a second call on the same tree, made in the state the first one left,
  has the same outcome (accepts, or raises the same exception with the same message).
\<close>

theorem static_checks_idempotent:
  "snd (static_checks tree p) = p
   \<and> DANGEROUS_NAMES (snd (static_checks tree p)) = DANGEROUS_NAMES p
   \<and> DANGEROUS_ATTR_PARENTS (snd (static_checks tree p)) = DANGEROUS_ATTR_PARENTS p
   \<and> fst (static_checks tree (snd (static_checks tree p))) = fst (static_checks tree p)"
  by (simp add: static_checks_def static_checks_loop_state)

text \<open>
  C9. The attribute call \<^verbatim>\<open>requests.get('http://x')\<close> passes vetting, although the direct call
  \<^verbatim>\<open>requests('http://x')\<close> is rejected: \<^verbatim>\<open>requests\<close> is in \<^verbatim>\<open>DANGEROUS_NAMES\<close> but not in
  \<^verbatim>\<open>DANGEROUS_ATTR_PARENTS\<close>.
\<close>

theorem requests_attribute_call_accepted:
  "static_checks tree_requests_get initial_process = (Inr (), initial_process)
   \<and> static_checks tree_requests_call initial_process
       = (Inl (SafetyError (''Use of '' @ [CHR 0x27] @ ''requests()' is not allowed in sandbox mode.'')),
          initial_process)
   \<and> ''requests'' \<in> DANGEROUS_NAMES initial_process
   \<and> ''requests'' \<notin> DANGEROUS_ATTR_PARENTS initial_process"
  by (simp add: static_checks_def walk_def tree_requests_get_def tree_requests_call_def
      check_node_def initial_process_def Load_def)

text \<open>
  C10. \<^verbatim>\<open>static_checks\<close> accepts a tree exactly when none of its nodes has an offending shape:
  an import, a with-block, a call of a denied bare name, or an attribute access or attribute
  call rooted at a denied parent. Nothing else is inspected, so a bare name that is merely
  referenced passes vetting even when it is in \<^verbatim>\<open>DANGEROUS_NAMES\<close>, alone as in \<^verbatim>\<open>x = eval\<close> or
  next to other calls as in \<^verbatim>\<open>print(eval)\<close>.
\<close>

theorem bare_name_reference_accepted:
  "static_checks tree p = (Inr (), p) \<longleftrightarrow> (\<forall>n\<in>set (walk tree). \<not> offending_shape p n)"
proof -
  have "check_node p n = None \<longleftrightarrow> \<not> offending_shape p n" for n
    by (induction p n rule: offending_shape.induct) (simp_all add: check_node_def)
  then show ?thesis
    by (simp add: static_checks_def static_checks_loop_accepts)
qed

theorem bare_name_reference_accepted_witness:
  "''eval'' \<in> DANGEROUS_NAMES initial_process
   \<and> Name ''eval'' Load \<in> set (walk tree_x_eq_eval)
   \<and> static_checks tree_x_eq_eval initial_process = (Inr (), initial_process)
   \<and> Name ''eval'' Load \<in> set (walk tree_print_eval)
   \<and> static_checks tree_print_eval initial_process = (Inr (), initial_process)"
proof -
  have h0: "''eval'' \<in> DANGEROUS_NAMES initial_process"
    by (simp add: initial_process_def)
  have h1: "Name ''eval'' Load \<in> set (walk tree_x_eq_eval)"
    by (simp add: walk_def tree_x_eq_eval_def)
  have h2: "\<forall>n\<in>set (walk tree_x_eq_eval). \<not> offending_shape initial_process n"
    by (simp add: walk_def tree_x_eq_eval_def Load_def Store_def)
  have h3: "Name ''eval'' Load \<in> set (walk tree_print_eval)"
    by (simp add: walk_def tree_print_eval_def)
  have h4: "\<forall>n\<in>set (walk tree_print_eval). \<not> offending_shape initial_process n"
    by (simp add: walk_def tree_print_eval_def Load_def initial_process_def)
  from bare_name_reference_accepted [of tree_x_eq_eval initial_process]
    bare_name_reference_accepted [of tree_print_eval initial_process] h0 h1 h2 h3 h4
  show ?thesis by blast
qed

end
